theory Spec2Isabelle
  imports Complex_Main "HOL-Library.Word"
begin

section \<open>M4Sprites.cpp: textured sprites with position, scale and rotation\<close>

text \<open>
  A shallow embedding of \<^verbatim>\<open>src/Modulo4/M4Sprites.cpp\<close>, in two layers. In the first the
  C++ \<^verbatim>\<open>float\<close> of the program (\<^verbatim>\<open>glm::vec2\<close>, \<^verbatim>\<open>glm::mat4\<close>, \<^verbatim>\<open>float rotation\<close>) is
  embedded as \<^typ>\<open>real\<close>: its statements about coordinates are statements in exact
  arithmetic, which is what the order of the transforms, the pivot and the placement of
  the corners turn on. The second layer, further down, is the arithmetic the program
  runs, IEEE binary32 with rounding, infinities and NaN, for the properties that turn on
  those. OpenGL handles (\<^verbatim>\<open>GLuint\<close>) are 32-bit words.
\<close>

subsection \<open>Vectors and matrices (glm::vec2, glm::vec3, glm::vec4, glm::mat4)\<close>

type_synonym GLuint = "32 word"

datatype vec2 = Vec2 (vx: real) (vy: real)

datatype vec3 = Vec3 real real real

datatype vec4 = Vec4 real real real real

text \<open>\<^verbatim>\<open>glm::mat4\<close> is column-major: \<^verbatim>\<open>m[0]\<close> .. \<^verbatim>\<open>m[3]\<close> are its four columns.\<close>

datatype mat4 = Mat4 vec4 vec4 vec4 vec4

text \<open>\<^verbatim>\<open>vec4 + vec4\<close> and \<^verbatim>\<open>vec4 * float\<close>, componentwise.\<close>

fun vec4_add :: "vec4 \<Rightarrow> vec4 \<Rightarrow> vec4" where
  "vec4_add (Vec4 a b c d) (Vec4 a' b' c' d') = Vec4 (a + a') (b + b') (c + c') (d + d')"

fun vec4_mul :: "vec4 \<Rightarrow> real \<Rightarrow> vec4" where
  "vec4_mul (Vec4 a b c d) k = Vec4 (a * k) (b * k) (c * k) (d * k)"

text \<open>\<^verbatim>\<open>glm::mat4(1.0f)\<close>: the identity matrix.\<close>

definition mat4_identity :: mat4 where
  "mat4_identity = Mat4 (Vec4 1 0 0 0) (Vec4 0 1 0 0) (Vec4 0 0 1 0) (Vec4 0 0 0 1)"

text \<open>
  The matrix-vector and matrix-matrix products of GLSL (\<^verbatim>\<open>mat4 * vec4\<close>,
  \<^verbatim>\<open>mat4 * mat4\<close>): the product with a vector is the combination of the columns, the
  product of two matrices multiplies the left matrix with each column of the right.
\<close>

fun mat_vec :: "mat4 \<Rightarrow> vec4 \<Rightarrow> vec4" where
  "mat_vec (Mat4 m0 m1 m2 m3) (Vec4 a b c d) =
     vec4_add (vec4_add (vec4_add (vec4_mul m0 a) (vec4_mul m1 b)) (vec4_mul m2 c)) (vec4_mul m3 d)"

fun mat_mul :: "mat4 \<Rightarrow> mat4 \<Rightarrow> mat4" where
  "mat_mul m (Mat4 n0 n1 n2 n3) = Mat4 (mat_vec m n0) (mat_vec m n1) (mat_vec m n2) (mat_vec m n3)"

subsection \<open>The GLM functions Sprite::Draw calls\<close>

text \<open>
  Modelled from the spec: GLM (\<^verbatim>\<open>glm/gtc/matrix_transform.hpp\<close>) is an external library
  that \<^verbatim>\<open>src/\<close> includes and does not contain; the spec names it as the linear-algebra
  helper that provides matrix construction (translate/rotate/scale). The bodies below are
  the library's own, statement by statement:
  \<^verbatim>\<open>translate(m, v): Result = m; Result[3] = m[0]*v[0] + m[1]*v[1] + m[2]*v[2] + m[3];\<close>
\<close>

fun glm_translate :: "mat4 \<Rightarrow> vec3 \<Rightarrow> mat4" where
  "glm_translate (Mat4 m0 m1 m2 m3) (Vec3 v0 v1 v2) =
     Mat4 m0 m1 m2
       (vec4_add (vec4_add (vec4_add (vec4_mul m0 v0) (vec4_mul m1 v1)) (vec4_mul m2 v2)) m3)"

text \<open>
  Modelled from the spec: GLM's \<^verbatim>\<open>normalize(v) = v * inversesqrt(dot(v, v))\<close>, absent from
  \<^verbatim>\<open>src/\<close>. Draw calls it (through rotate) on the axis (0, 0, 1) only.
\<close>

fun glm_normalize :: "vec3 \<Rightarrow> vec3" where
  "glm_normalize (Vec3 a b c) =
     (let k = 1 / sqrt (a * a + b * b + c * c) in Vec3 (a * k) (b * k) (c * k))"

text \<open>
  Modelled from the spec: GLM's \<^verbatim>\<open>rotate(m, angle, v)\<close>, absent from \<^verbatim>\<open>src/\<close>:
  \<^verbatim>\<open>c = cos(angle); s = sin(angle); axis = normalize(v); temp = (1 - c) * axis;\<close>
  \<^verbatim>\<open>Rotate[0][0] = c + temp[0]*axis[0]; Rotate[0][1] = temp[0]*axis[1] + s*axis[2];\<close>
  \<^verbatim>\<open>Rotate[0][2] = temp[0]*axis[2] - s*axis[1]; Rotate[1][0] = temp[1]*axis[0] - s*axis[2];\<close>
  \<^verbatim>\<open>Rotate[1][1] = c + temp[1]*axis[1]; Rotate[1][2] = temp[1]*axis[2] + s*axis[0];\<close>
  \<^verbatim>\<open>Rotate[2][0] = temp[2]*axis[0] + s*axis[1]; Rotate[2][1] = temp[2]*axis[1] - s*axis[0];\<close>
  \<^verbatim>\<open>Rotate[2][2] = c + temp[2]*axis[2];\<close>
  \<^verbatim>\<open>Result[i] = m[0]*Rotate[i][0] + m[1]*Rotate[i][1] + m[2]*Rotate[i][2]\<close> for i = 0, 1, 2
  and \<^verbatim>\<open>Result[3] = m[3]\<close>.
\<close>

fun glm_rotate :: "mat4 \<Rightarrow> real \<Rightarrow> vec3 \<Rightarrow> mat4" where
  "glm_rotate (Mat4 m0 m1 m2 m3) angle v =
     (let c = cos angle; s = sin angle in
      case glm_normalize v of Vec3 ax ay az \<Rightarrow>
        (let t0 = (1 - c) * ax; t1 = (1 - c) * ay; t2 = (1 - c) * az;
             r00 = c + t0 * ax; r01 = t0 * ay + s * az; r02 = t0 * az - s * ay;
             r10 = t1 * ax - s * az; r11 = c + t1 * ay; r12 = t1 * az + s * ax;
             r20 = t2 * ax + s * ay; r21 = t2 * ay - s * ax; r22 = c + t2 * az
         in Mat4
              (vec4_add (vec4_add (vec4_mul m0 r00) (vec4_mul m1 r01)) (vec4_mul m2 r02))
              (vec4_add (vec4_add (vec4_mul m0 r10) (vec4_mul m1 r11)) (vec4_mul m2 r12))
              (vec4_add (vec4_add (vec4_mul m0 r20) (vec4_mul m1 r21)) (vec4_mul m2 r22))
              m3))"

text \<open>
  Modelled from the spec: GLM's \<^verbatim>\<open>scale(m, v)\<close>, absent from \<^verbatim>\<open>src/\<close>:
  \<^verbatim>\<open>Result[0] = m[0]*v[0]; Result[1] = m[1]*v[1]; Result[2] = m[2]*v[2]; Result[3] = m[3];\<close>
\<close>

fun glm_scale :: "mat4 \<Rightarrow> vec3 \<Rightarrow> mat4" where
  "glm_scale (Mat4 m0 m1 m2 m3) (Vec3 v0 v1 v2) =
     Mat4 (vec4_mul m0 v0) (vec4_mul m1 v1) (vec4_mul m2 v2) m3"

text \<open>
  Modelled from the spec: GLM's \<^verbatim>\<open>radians(degrees)\<close>, absent from \<^verbatim>\<open>src/\<close>: the degrees
  times the constant \<open>\<pi> / 180\<close> (in the library the literal 0.01745329251994329577).
\<close>

definition glm_radians :: "real \<Rightarrow> real" where
  "glm_radians degrees = degrees * (pi / 180)"

subsection \<open>The shared quad (CreateQuadVAO) and the vertex shader\<close>

text \<open>
  \<^verbatim>\<open>quadVertices\<close>: position (x, y, z) and texture coordinate (s, t) of each vertex, in
  the order of the array: top-left, bottom-left, top-right, bottom-right.
\<close>

definition quadVertices :: "(vec3 \<times> vec2) list" where
  "quadVertices =
     [(Vec3 (- 0.5) 0.5 0, Vec2 0 1),
      (Vec3 (- 0.5) (- 0.5) 0, Vec2 0 0),
      (Vec3 0.5 0.5 0, Vec2 1 1),
      (Vec3 0.5 (- 0.5) 0, Vec2 1 0)]"

text \<open>\<^verbatim>\<open>vec4(aPos, 1.0)\<close>.\<close>

fun vec4_of :: "vec3 \<Rightarrow> real \<Rightarrow> vec4" where
  "vec4_of (Vec3 a b c) w = Vec4 a b c w"

text \<open>
  \<^verbatim>\<open>vertexShaderSource\<close>: \<^verbatim>\<open>gl_Position = uProjection * uModel * vec4(aPos, 1.0)\<close> (the
  product of GLSL associates to the left) and
  \<^verbatim>\<open>TexCoord = vec2(aTexCoord.x, 1.0 - aTexCoord.y)\<close>.
\<close>

fun vertexShader :: "mat4 \<Rightarrow> mat4 \<Rightarrow> vec3 \<times> vec2 \<Rightarrow> vec4 \<times> vec2" where
  "vertexShader uProjection uModel (aPos, aTexCoord) =
     (mat_vec (mat_mul uProjection uModel) (vec4_of aPos 1),
      Vec2 (vx aTexCoord) (1 - vy aTexCoord))"

subsection \<open>class Sprite\<close>

record Sprite =
  shaderID :: GLuint
  VAO :: GLuint
  textureID :: GLuint
  position :: vec2
  scale :: vec2
  rotation :: real

text \<open>The constructor \<^verbatim>\<open>Sprite(shaderID, quadVAO, textureID)\<close>.\<close>

definition new_Sprite :: "GLuint \<Rightarrow> GLuint \<Rightarrow> GLuint \<Rightarrow> Sprite" where
  "new_Sprite sid quadVAO tid =
     \<lparr>shaderID = sid, VAO = quadVAO, textureID = tid,
      position = Vec2 0 0, scale = Vec2 100 100, rotation = 0\<rparr>"

definition SetPosition :: "Sprite \<Rightarrow> real \<Rightarrow> real \<Rightarrow> Sprite" where
  "SetPosition s x y = s\<lparr>position := Vec2 x y\<rparr>"

definition SetScale :: "Sprite \<Rightarrow> real \<Rightarrow> real \<Rightarrow> Sprite" where
  "SetScale s widthPx heightPx = s\<lparr>scale := Vec2 widthPx heightPx\<rparr>"

definition SetRotation :: "Sprite \<Rightarrow> real \<Rightarrow> Sprite" where
  "SetRotation s angleDegrees = s\<lparr>rotation := angleDegrees\<rparr>"

text \<open>
  Step 1 of \<^verbatim>\<open>Sprite::Draw\<close> (lines 250 to 258): the local \<^verbatim>\<open>model\<close>, one \<^verbatim>\<open>let\<close> per
  assignment.
\<close>

definition Draw_model :: "Sprite \<Rightarrow> mat4" where
  "Draw_model s =
     (let model = mat4_identity;
          model = glm_translate model (Vec3 (vx (position s)) (vy (position s)) 0);
          model = glm_translate model (Vec3 (0.5 * vx (scale s)) (0.5 * vy (scale s)) 0);
          model = glm_rotate model (glm_radians (rotation s)) (Vec3 0 0 1);
          model = glm_translate model (Vec3 (- 0.5 * vx (scale s)) (- 0.5 * vy (scale s)) 0);
          model = glm_scale model (Vec3 (vx (scale s)) (vy (scale s)) 1)
      in model)"

subsection \<open>The graphics state Sprite::Draw writes\<close>

text \<open>
  The part of the OpenGL context that Draw touches: the program in use, the uniforms of
  each program (addressed by program and name, as \<^verbatim>\<open>glGetUniformLocation\<close> does), the
  active texture unit, the 2D texture bound to each unit, the bound vertex array, and the
  draw calls issued so far.
\<close>

datatype uniform_value = UMat4 mat4 | UInt int

datatype draw_mode = GL_TRIANGLE_STRIP

record draw_call =
  dc_program :: GLuint
  dc_vertex_array :: GLuint
  dc_texture :: GLuint
  dc_mode :: draw_mode
  dc_vertices :: "(vec4 \<times> vec2) list"

record gl_state =
  current_program :: GLuint
  uniforms :: "GLuint \<times> string \<Rightarrow> uniform_value option"
  active_texture :: nat
  texture_2d :: "nat \<Rightarrow> GLuint"
  vertex_array :: GLuint
  draw_calls :: "draw_call list"

text \<open>\<^verbatim>\<open>glUniformMatrix4fv\<close> and \<^verbatim>\<open>glUniform1i\<close> write a uniform of the program in use.\<close>

definition glUniformMatrix4fv :: "string \<Rightarrow> mat4 \<Rightarrow> gl_state \<Rightarrow> gl_state" where
  "glUniformMatrix4fv name m gl =
     gl\<lparr>uniforms := (uniforms gl)((current_program gl, name) \<mapsto> UMat4 m)\<rparr>"

definition glUniform1i :: "string \<Rightarrow> int \<Rightarrow> gl_state \<Rightarrow> gl_state" where
  "glUniform1i name i gl =
     gl\<lparr>uniforms := (uniforms gl)((current_program gl, name) \<mapsto> UInt i)\<rparr>"

text \<open>A mat4 uniform of the program in use; a uniform never written is all zero.\<close>

definition uniform_mat4 :: "gl_state \<Rightarrow> string \<Rightarrow> mat4" where
  "uniform_mat4 gl name =
     (case uniforms gl (current_program gl, name) of
        Some (UMat4 m) \<Rightarrow> m
      | _ \<Rightarrow> Mat4 (Vec4 0 0 0 0) (Vec4 0 0 0 0) (Vec4 0 0 0 0) (Vec4 0 0 0 0))"

text \<open>
  \<^verbatim>\<open>glDrawArrays(GL_TRIANGLE_STRIP, first, count)\<close> with the program of
  \<^verbatim>\<open>vertexShaderSource\<close> in use and the vertex array of \<^verbatim>\<open>CreateQuadVAO\<close> bound (the only
  program and the only vertex array main creates): the vertex stage runs on \<^verbatim>\<open>count\<close>
  vertices of the quad from \<^verbatim>\<open>first\<close> on, with the uniforms as they stand.
\<close>

definition glDrawArrays :: "draw_mode \<Rightarrow> nat \<Rightarrow> nat \<Rightarrow> gl_state \<Rightarrow> gl_state" where
  "glDrawArrays mode first count gl =
     gl\<lparr>draw_calls := draw_calls gl @
       [\<lparr>dc_program = current_program gl,
         dc_vertex_array = vertex_array gl,
         dc_texture = texture_2d gl (active_texture gl),
         dc_mode = mode,
         dc_vertices =
           map (vertexShader (uniform_mat4 gl ''uProjection'') (uniform_mat4 gl ''uModel''))
             (take count (drop first quadVertices))\<rparr>]\<rparr>"

text \<open>
  \<^verbatim>\<open>Sprite::Draw(projection)\<close>, statement by statement. The method is not \<^verbatim>\<open>const\<close>, so
  the model returns the sprite as the call leaves it, beside the graphics state.
\<close>

definition Draw :: "Sprite \<Rightarrow> mat4 \<Rightarrow> gl_state \<Rightarrow> Sprite \<times> gl_state" where
  "Draw s projection gl =
     (let model = Draw_model s;
          gl = gl\<lparr>current_program := shaderID s\<rparr>;
          gl = glUniformMatrix4fv ''uModel'' model gl;
          gl = glUniformMatrix4fv ''uProjection'' projection gl;
          gl = gl\<lparr>active_texture := 0\<rparr>;
          gl = gl\<lparr>texture_2d := (texture_2d gl)(active_texture gl := textureID s)\<rparr>;
          gl = glUniform1i ''uTexture'' 0 gl;
          gl = gl\<lparr>vertex_array := VAO s\<rparr>;
          gl = glDrawArrays GL_TRIANGLE_STRIP 0 4 gl;
          gl = gl\<lparr>vertex_array := 0\<rparr>
      in (s, gl))"

subsection \<open>Standard error, CreateShaderProgram and loadTexture\<close>

text \<open>
  The text a function writes to \<^verbatim>\<open>cerr\<close> is returned beside its result; \<^verbatim>\<open>endl\<close> and the
  \<^verbatim>\<open>\n\<close> of a literal are the line feed.
\<close>

definition endl :: string where
  "endl = [CHR 0x0A]"

text \<open>
  What the OpenGL driver answers to the calls of one run of \<^verbatim>\<open>CreateShaderProgram\<close>: the
  names \<^verbatim>\<open>glCreateShader\<close> and \<^verbatim>\<open>glCreateProgram\<close> return, the \<^verbatim>\<open>GL_COMPILE_STATUS\<close> and
  \<^verbatim>\<open>GL_LINK_STATUS\<close> it reports (0 is failure), and its info logs. The shader sources are
  only handed to the driver, whose compiler is not part of the program, so the model
  takes the driver's answers in their place.
\<close>

record gl_driver =
  vertex_shader_name :: GLuint
  vertex_compile_status :: int
  vertex_info_log :: string
  fragment_shader_name :: GLuint
  fragment_compile_status :: int
  fragment_info_log :: string
  program_name :: GLuint
  link_status :: int
  program_info_log :: string

text \<open>
  \<^verbatim>\<open>glGetShaderInfoLog(shader, 512, nullptr, infoLog)\<close> fills \<^verbatim>\<open>GLchar infoLog[512]\<close> with
  at most 511 characters of the log and a terminating zero.
\<close>

definition infoLog :: "string \<Rightarrow> string" where
  "infoLog msg = take 511 msg"

text \<open>
  \<^verbatim>\<open>CreateShaderProgram\<close>: the program's name and the text written to \<^verbatim>\<open>cerr\<close>. No branch
  returns early: each failed status only adds its message.
\<close>

definition CreateShaderProgram :: "gl_driver \<Rightarrow> GLuint \<times> string" where
  "CreateShaderProgram drv =
     (let vertexShaderName = vertex_shader_name drv;
          success = vertex_compile_status drv;
          err = (if success = 0
                 then ''[ERRO] Vertex Shader compilation failed:'' @ endl
                      @ infoLog (vertex_info_log drv) @ endl
                 else []);
          fragmentShaderName = fragment_shader_name drv;
          success = fragment_compile_status drv;
          err = err @ (if success = 0
                 then ''[ERRO] Fragment Shader compilation failed:'' @ endl
                      @ infoLog (fragment_info_log drv) @ endl
                 else []);
          shaderProgram = program_name drv;
          success = link_status drv;
          err = err @ (if success = 0
                 then ''[ERRO] Shader Program link failed:'' @ endl
                      @ infoLog (program_info_log drv) @ endl
                 else [])
      in (shaderProgram, err))"

text \<open>
  An image as \<^verbatim>\<open>stbi_load\<close> decodes it (\<^verbatim>\<open>None\<close> is the null pointer of a failed load),
  and the image a texture name holds after \<^verbatim>\<open>glTexImage2D\<close>.
\<close>

record image =
  width :: int
  height :: int
  nrChannels :: int
  data :: "8 word list"

datatype GLenum = GL_RED | GL_RGB | GL_RGBA

record tex_image =
  tex_format :: GLenum
  tex_width :: int
  tex_height :: int
  tex_data :: "8 word list"

text \<open>
  \<^verbatim>\<open>loadTexture(filePath)\<close>: \<^verbatim>\<open>texID\<close> is the name (the local \<^verbatim>\<open>textureID\<close>) \<^verbatim>\<open>glGenTextures\<close> generates,
  \<^verbatim>\<open>stbi_load\<close> the decoder. The result is the texture name, the text written to \<^verbatim>\<open>cerr\<close>
  and the images of the textures. The name is returned on both branches. The wrapping
  and filtering parameters, the mipmaps and the bindings of \<^verbatim>\<open>GL_TEXTURE_2D\<close> are left out.
\<close>

definition loadTexture ::
  "GLuint \<Rightarrow> (string \<Rightarrow> image option) \<Rightarrow> string \<Rightarrow> (GLuint \<Rightarrow> tex_image option)
     \<Rightarrow> GLuint \<times> string \<times> (GLuint \<Rightarrow> tex_image option)" where
  "loadTexture texID stbi_load filePath textures =
     (case stbi_load filePath of
        Some img \<Rightarrow>
          (let format = (if nrChannels img = 1 then GL_RED
                         else if nrChannels img = 3 then GL_RGB
                         else if nrChannels img = 4 then GL_RGBA
                         else GL_RGB)
           in (texID, [],
               textures(texID \<mapsto>
                 \<lparr>tex_format = format, tex_width = width img, tex_height = height img,
                  tex_data = data img\<rparr>)))
      | None \<Rightarrow>
          (texID, ''[ERRO] Falha ao carregar textura em: '' @ filePath @ endl, textures))"

subsection \<open>main\<close>

text \<open>
  Modelled from the spec: GLM's \<^verbatim>\<open>ortho(left, right, bottom, top, zNear, zFar)\<close>, absent
  from \<^verbatim>\<open>src/\<close> (the linear-algebra helper's ortho), with l, r, b, t for left, right,
  bottom and top: the identity with
  \<^verbatim>\<open>[0][0] = 2/(right-left)\<close>, \<^verbatim>\<open>[1][1] = 2/(top-bottom)\<close>, \<^verbatim>\<open>[2][2] = -2/(zFar-zNear)\<close>,
  \<^verbatim>\<open>[3][0] = -(right+left)/(right-left)\<close>, \<^verbatim>\<open>[3][1] = -(top+bottom)/(top-bottom)\<close>,
  \<^verbatim>\<open>[3][2] = -(zFar+zNear)/(zFar-zNear)\<close>.
\<close>

definition glm_ortho :: "real \<Rightarrow> real \<Rightarrow> real \<Rightarrow> real \<Rightarrow> real \<Rightarrow> real \<Rightarrow> mat4" where
  "glm_ortho l r b t zNear zFar =
     Mat4 (Vec4 (2 / (r - l)) 0 0 0)
          (Vec4 0 (2 / (t - b)) 0 0)
          (Vec4 0 0 (- 2 / (zFar - zNear)) 0)
          (Vec4 (- (r + l) / (r - l)) (- (t + b) / (t - b)) (- (zFar + zNear) / (zFar - zNear)) 1)"

text \<open>
  The events one \<^verbatim>\<open>glfwPollEvents\<close> delivers: a key event (key, action) goes to
  \<^verbatim>\<open>key_callback\<close>; on a close request of the window system GLFW sets the window's
  close flag itself.
\<close>

datatype event = KeyEvent int int | CloseRequest

definition GLFW_KEY_ESCAPE :: int where
  "GLFW_KEY_ESCAPE = 256"

definition GLFW_PRESS :: int where
  "GLFW_PRESS = 1"

text \<open>\<^verbatim>\<open>key_callback\<close>, on the window's close flag.\<close>

definition key_callback :: "int \<Rightarrow> int \<Rightarrow> bool \<Rightarrow> bool" where
  "key_callback key action shouldClose =
     (if key = GLFW_KEY_ESCAPE \<and> action = GLFW_PRESS then True else shouldClose)"

fun glfwPollEvents :: "event list \<Rightarrow> bool \<Rightarrow> bool" where
  "glfwPollEvents [] shouldClose = shouldClose"
| "glfwPollEvents (KeyEvent key action # es) shouldClose =
     glfwPollEvents es (key_callback key action shouldClose)"
| "glfwPollEvents (CloseRequest # es) shouldClose = glfwPollEvents es True"

text \<open>
  What the world outside answers to main: whether \<^verbatim>\<open>glfwInit\<close>, \<^verbatim>\<open>glfwCreateWindow\<close> and
  \<^verbatim>\<open>gladLoadGLLoader\<close> succeed, the driver's answers to \<^verbatim>\<open>CreateShaderProgram\<close>, the names
  of the vertex array and of the two textures, the image decoder, and the events of the
  n-th \<^verbatim>\<open>glfwPollEvents\<close>.
\<close>

record environment =
  glfwInit_ok :: bool
  glfwCreateWindow_ok :: bool
  gladLoadGLLoader_ok :: bool
  driver :: gl_driver
  quadVAO_name :: GLuint
  texture_name :: "nat \<Rightarrow> GLuint"
  image_decoder :: "string \<Rightarrow> image option"
  events :: "nat \<Rightarrow> event list"

text \<open>The loop \<^verbatim>\<open>for (auto& sprite : sprites) sprite.Draw(projection)\<close>.\<close>

fun draw_all :: "Sprite list \<Rightarrow> mat4 \<Rightarrow> gl_state \<Rightarrow> Sprite list \<times> gl_state" where
  "draw_all [] projection gl = ([], gl)"
| "draw_all (s # ss) projection gl =
     (case Draw s projection gl of (s', gl') \<Rightarrow>
        (case draw_all ss projection gl' of (ss', gl'') \<Rightarrow> (s' # ss', gl'')))"

text \<open>
  The game loop \<^verbatim>\<open>while (!glfwWindowShouldClose(window))\<close>, from its n-th iteration on.
  It ends only when the close flag is set; a run in which it never is does not return
  (\<^verbatim>\<open>None\<close>). The result is the number of frames drawn and the graphics state.
\<close>

partial_function (option) game_loop ::
  "environment \<Rightarrow> mat4 \<Rightarrow> bool \<Rightarrow> nat \<Rightarrow> Sprite list \<Rightarrow> gl_state \<Rightarrow> (nat \<times> gl_state) option" where
  "game_loop env projection shouldClose n sprites gl =
     (if shouldClose then Some (n, gl)
      else game_loop env projection (glfwPollEvents (events env n) shouldClose) (Suc n)
             (fst (draw_all sprites projection gl)) (snd (draw_all sprites projection gl)))"

text \<open>The close flag when the loop tests it for the n-th time (counting from 0).\<close>

fun shouldClose_at :: "environment \<Rightarrow> nat \<Rightarrow> bool" where
  "shouldClose_at env 0 = False"
| "shouldClose_at env (Suc n) = glfwPollEvents (events env n) (shouldClose_at env n)"

definition gl_initial :: gl_state where
  "gl_initial =
     \<lparr>current_program = 0, uniforms = (\<lambda>k. None), active_texture = 0,
      texture_2d = (\<lambda>u. 0), vertex_array = 0, draw_calls = []\<rparr>"

text \<open>
  \<^verbatim>\<open>main\<close>: the exit code and the text written to \<^verbatim>\<open>cerr\<close>, or \<^verbatim>\<open>None\<close> when the loop
  never ends.
\<close>

definition main :: "environment \<Rightarrow> (int \<times> string) option" where
  "main env =
     (if \<not> glfwInit_ok env then Some (- 1, ''[ERRO] Falha ao inicializar GLFW'' @ endl)
      else if \<not> glfwCreateWindow_ok env
        then Some (- 1, ''[ERRO] Falha ao criar janela GLFW'' @ endl)
      else if \<not> gladLoadGLLoader_ok env
        then Some (- 1, ''[ERRO] Falha ao inicializar GLAD'' @ endl)
      else
        (case CreateShaderProgram (driver env) of (shaderProgram, err1) \<Rightarrow>
         let quadVAO = quadVAO_name env in
         case loadTexture (texture_name env 0) (image_decoder env)
                ''../assets/sprites/microbio.png'' (\<lambda>t. None) of (tex1, err2, textures) \<Rightarrow>
         case loadTexture (texture_name env 1) (image_decoder env)
                ''../assets/sprites/enemies-spritesheet1.png'' textures of (tex2, err3, textures) \<Rightarrow>
         let sprites =
               [SetRotation (SetScale (SetPosition (new_Sprite shaderProgram quadVAO tex1) 50 50) 128 128) 0,
                SetRotation (SetScale (SetPosition (new_Sprite shaderProgram quadVAO tex2) 300 200) 200 100) 45];
             projection = glm_ortho 0 800 0 600 (- 1) 1
         in (case game_loop env projection False 0 sprites gl_initial of
               None \<Rightarrow> None
             | Some r \<Rightarrow> Some (0, err1 @ err2 @ err3))))"

text \<open>Environments for the runs evaluated below.\<close>

definition driver_ok :: gl_driver where
  "driver_ok =
     \<lparr>vertex_shader_name = 1, vertex_compile_status = 1, vertex_info_log = [],
      fragment_shader_name = 2, fragment_compile_status = 1, fragment_info_log = [],
      program_name = 3, link_status = 1, program_info_log = []\<rparr>"

definition env_escape :: environment where
  "env_escape =
     \<lparr>glfwInit_ok = True, glfwCreateWindow_ok = True, gladLoadGLLoader_ok = True,
      driver = driver_ok, quadVAO_name = 1, texture_name = (\<lambda>n. of_nat (Suc n)),
      image_decoder = (\<lambda>p. Some \<lparr>width = 1, height = 1, nrChannels = 4, data = [0, 0, 0, 255]\<rparr>),
      events = (\<lambda>n. if n = 1 then [KeyEvent 256 1] else [])\<rparr>"

subsection \<open>The placement transform as the specification words it\<close>

text \<open>
  The elementary matrices the specification composes, written out as 4x4 matrices
  (columns first): the translation by a vector, the rotation about the Z axis by an
  angle in radians, and the scaling by a vector.
\<close>

fun spec_Translate :: "vec3 \<Rightarrow> mat4" where
  "spec_Translate (Vec3 tx ty tz) =
     Mat4 (Vec4 1 0 0 0) (Vec4 0 1 0 0) (Vec4 0 0 1 0) (Vec4 tx ty tz 1)"

definition spec_RotateZ :: "real \<Rightarrow> mat4" where
  "spec_RotateZ a =
     Mat4 (Vec4 (cos a) (sin a) 0 0) (Vec4 (- sin a) (cos a) 0 0) (Vec4 0 0 1 0) (Vec4 0 0 0 1)"

fun spec_Scale :: "vec3 \<Rightarrow> mat4" where
  "spec_Scale (Vec3 kx ky kz) =
     Mat4 (Vec4 kx 0 0 0) (Vec4 0 ky 0 0) (Vec4 0 0 kz 0) (Vec4 0 0 0 1)"

subsection \<open>Transformed corners\<close>

text \<open>
  The corner of a sprite: the position Draw's model matrix gives a vertex of the quad,
  before projection, as the pair of its x and y. \<^verbatim>\<open>corners\<close> lists them in the order of
  \<^verbatim>\<open>quadVertices\<close>: top-left, bottom-left, top-right, bottom-right, so that reversing the
  list pairs each corner with the diagonally opposite one.
\<close>

fun vec4_xy :: "vec4 \<Rightarrow> vec2" where
  "vec4_xy (Vec4 a b c d) = Vec2 a b"

definition corner :: "Sprite \<Rightarrow> vec3 \<Rightarrow> vec2" where
  "corner s v = vec4_xy (mat_vec (Draw_model s) (vec4_of v 1))"

definition corners :: "Sprite \<Rightarrow> vec2 list" where
  "corners s = map (\<lambda>(aPos, aTexCoord). corner s aPos) quadVertices"

fun vec2_add :: "vec2 \<Rightarrow> vec2 \<Rightarrow> vec2" where
  "vec2_add (Vec2 a b) (Vec2 a' b') = Vec2 (a + a') (b + b')"

text \<open>The centroid (mean) of a list of points.\<close>

definition centroid :: "vec2 list \<Rightarrow> vec2" where
  "centroid ps = Vec2 (sum_list (map vx ps) / real (length ps)) (sum_list (map vy ps) / real (length ps))"

section \<open>The program's arithmetic: C++ float\<close>

text \<open>
  The sections above compute with exact reals. The program computes with \<^verbatim>\<open>float\<close>, IEEE
  754 binary32: every sum and product is rounded to the nearest binary32 value (ties to
  the even mantissa), and besides the finite values there are the two infinities and
  NaN. This section models that arithmetic and, over it, the sprite and the model matrix
  once more, for the properties that turn on rounding or on NaN.
\<close>

subsection \<open>binary32 values and rounding\<close>

text \<open>
  A \<^verbatim>\<open>float\<close>: a finite value (a real on the binary32 grid), plus or minus infinity, or
  NaN. The two zeros are not told apart.
\<close>

datatype f32 = Finite real | PInf | NInf | NaN

text \<open>Rounding to the nearest integer, a tie to the even one.\<close>

definition round_even :: "real \<Rightarrow> int" where
  "round_even t =
     (let f = \<lfloor>t\<rfloor>; r = t - of_int f
      in if r < 1 / 2 then f else if 1 / 2 < r then f + 1 else if even f then f else f + 1)"

text \<open>
  Rounding a real to binary32: with e the binary exponent of x (not below -126, where the
  subnormal values start), the grid around x has the step 2 to the (e - 23); x goes to the
  nearest grid point, and a result of magnitude 2 to the 128 or more is an infinity.
\<close>

definition rnd32 :: "real \<Rightarrow> f32" where
  "rnd32 x =
     (if x = 0 then Finite 0
      else
        let e = max \<lfloor>log 2 \<bar>x\<bar>\<rfloor> (- 126);
            u = 2 powi (e - 23);
            y = of_int (round_even (x / u)) * u
        in if 2 ^ 128 \<le> \<bar>y\<bar> then (if 0 < x then PInf else NInf) else Finite y)"

text \<open>
  The operations of \<^verbatim>\<open>float\<close>: the exact result rounded, with the IEEE rules for
  infinities and NaN. Each operation is rounded on its own, as the source writes them (no
  fused multiply-add, no wider intermediate format). A division by zero takes the zero
  as +0 (in the program the only divisor is a square root).
\<close>

fun fadd :: "f32 \<Rightarrow> f32 \<Rightarrow> f32" where
  "fadd (Finite a) (Finite b) = rnd32 (a + b)"
| "fadd NaN y = NaN"
| "fadd x NaN = NaN"
| "fadd PInf NInf = NaN"
| "fadd NInf PInf = NaN"
| "fadd PInf y = PInf"
| "fadd x PInf = PInf"
| "fadd NInf y = NInf"
| "fadd x NInf = NInf"

fun fmul :: "f32 \<Rightarrow> f32 \<Rightarrow> f32" where
  "fmul (Finite a) (Finite b) = rnd32 (a * b)"
| "fmul NaN y = NaN"
| "fmul x NaN = NaN"
| "fmul (Finite a) PInf = (if a = 0 then NaN else if 0 < a then PInf else NInf)"
| "fmul (Finite a) NInf = (if a = 0 then NaN else if 0 < a then NInf else PInf)"
| "fmul PInf (Finite b) = (if b = 0 then NaN else if 0 < b then PInf else NInf)"
| "fmul NInf (Finite b) = (if b = 0 then NaN else if 0 < b then NInf else PInf)"
| "fmul PInf PInf = PInf"
| "fmul PInf NInf = NInf"
| "fmul NInf PInf = NInf"
| "fmul NInf NInf = PInf"

fun fneg :: "f32 \<Rightarrow> f32" where
  "fneg (Finite a) = Finite (- a)"
| "fneg PInf = NInf"
| "fneg NInf = PInf"
| "fneg NaN = NaN"

definition fsub :: "f32 \<Rightarrow> f32 \<Rightarrow> f32" where
  "fsub x y = fadd x (fneg y)"

fun fdiv :: "f32 \<Rightarrow> f32 \<Rightarrow> f32" where
  "fdiv (Finite a) (Finite b) =
     (if b = 0 then (if a = 0 then NaN else if 0 < a then PInf else NInf)
      else rnd32 (a / b))"
| "fdiv NaN y = NaN"
| "fdiv x NaN = NaN"
| "fdiv (Finite a) y = Finite 0"
| "fdiv PInf (Finite b) = (if 0 \<le> b then PInf else NInf)"
| "fdiv NInf (Finite b) = (if 0 \<le> b then NInf else PInf)"
| "fdiv x y = NaN"

fun fsqrt :: "f32 \<Rightarrow> f32" where
  "fsqrt (Finite a) = (if a < 0 then NaN else rnd32 (sqrt a))"
| "fsqrt PInf = PInf"
| "fsqrt x = NaN"

text \<open>
  The comparisons \<^verbatim>\<open>x >= 0.0f\<close> and \<^verbatim>\<open>x < 0.0f\<close>. Both are false of NaN, so that "not
  negative" and "at least zero" are different conditions on a \<^verbatim>\<open>float\<close>.
\<close>

fun f32_ge0 :: "f32 \<Rightarrow> bool" where
  "f32_ge0 (Finite a) = (0 \<le> a)"
| "f32_ge0 PInf = True"
| "f32_ge0 x = False"

fun f32_lt0 :: "f32 \<Rightarrow> bool" where
  "f32_lt0 (Finite a) = (a < 0)"
| "f32_lt0 NInf = True"
| "f32_lt0 x = False"

text \<open>
  \<^verbatim>\<open>cos\<close> and \<^verbatim>\<open>sin\<close> on \<^verbatim>\<open>float\<close> are the C library's, whose rounding the standard leaves
  open: they are a parameter. \<^verbatim>\<open>libm_rounded\<close> is the library that rounds correctly; it is
  evaluated below only at the angle 0, where every library returns cos 0 = 1 and
  sin 0 = 0.
\<close>

record libm =
  cosf :: "f32 \<Rightarrow> f32"
  sinf :: "f32 \<Rightarrow> f32"

definition libm_rounded :: libm where
  "libm_rounded =
     \<lparr>cosf = (\<lambda>x. case x of Finite a \<Rightarrow> rnd32 (cos a) | _ \<Rightarrow> NaN),
      sinf = (\<lambda>x. case x of Finite a \<Rightarrow> rnd32 (sin a) | _ \<Rightarrow> NaN)\<rparr>"

subsection \<open>Vectors, matrices and the GLM functions over float\<close>

datatype fvec2 = FVec2 f32 f32

datatype fvec3 = FVec3 f32 f32 f32

datatype fvec4 = FVec4 f32 f32 f32 f32

datatype fmat4 = FMat4 fvec4 fvec4 fvec4 fvec4

fun fvec4_add :: "fvec4 \<Rightarrow> fvec4 \<Rightarrow> fvec4" where
  "fvec4_add (FVec4 a b c d) (FVec4 a' b' c' d') =
     FVec4 (fadd a a') (fadd b b') (fadd c c') (fadd d d')"

fun fvec4_mul :: "fvec4 \<Rightarrow> f32 \<Rightarrow> fvec4" where
  "fvec4_mul (FVec4 a b c d) k = FVec4 (fmul a k) (fmul b k) (fmul c k) (fmul d k)"

definition fmat4_identity :: fmat4 where
  "fmat4_identity =
     FMat4 (FVec4 (Finite 1) (Finite 0) (Finite 0) (Finite 0))
           (FVec4 (Finite 0) (Finite 1) (Finite 0) (Finite 0))
           (FVec4 (Finite 0) (Finite 0) (Finite 1) (Finite 0))
           (FVec4 (Finite 0) (Finite 0) (Finite 0) (Finite 1))"

text \<open>
  Modelled from the spec: GLM's translate, normalize (with
  \<^verbatim>\<open>inversesqrt(x) = 1 / sqrt(x)\<close> and \<^verbatim>\<open>dot(v, v) = v.x*v.x + v.y*v.y + v.z*v.z\<close>), rotate,
  scale and radians, absent from \<^verbatim>\<open>src/\<close>: the bodies given with the real versions above,
  every operation now the \<^verbatim>\<open>float\<close> one, in the order the library writes them.
\<close>

fun glm_translate32 :: "fmat4 \<Rightarrow> fvec3 \<Rightarrow> fmat4" where
  "glm_translate32 (FMat4 m0 m1 m2 m3) (FVec3 v0 v1 v2) =
     FMat4 m0 m1 m2
       (fvec4_add (fvec4_add (fvec4_add (fvec4_mul m0 v0) (fvec4_mul m1 v1)) (fvec4_mul m2 v2)) m3)"

fun glm_normalize32 :: "fvec3 \<Rightarrow> fvec3" where
  "glm_normalize32 (FVec3 a b c) =
     (let k = fdiv (Finite 1) (fsqrt (fadd (fadd (fmul a a) (fmul b b)) (fmul c c)))
      in FVec3 (fmul a k) (fmul b k) (fmul c k))"

fun glm_rotate32 :: "libm \<Rightarrow> fmat4 \<Rightarrow> f32 \<Rightarrow> fvec3 \<Rightarrow> fmat4" where
  "glm_rotate32 lm (FMat4 m0 m1 m2 m3) angle v =
     (let c = cosf lm angle; s = sinf lm angle in
      case glm_normalize32 v of FVec3 ax ay az \<Rightarrow>
        (let t0 = fmul (fsub (Finite 1) c) ax;
             t1 = fmul (fsub (Finite 1) c) ay;
             t2 = fmul (fsub (Finite 1) c) az;
             r00 = fadd c (fmul t0 ax);
             r01 = fadd (fmul t0 ay) (fmul s az);
             r02 = fsub (fmul t0 az) (fmul s ay);
             r10 = fsub (fmul t1 ax) (fmul s az);
             r11 = fadd c (fmul t1 ay);
             r12 = fadd (fmul t1 az) (fmul s ax);
             r20 = fadd (fmul t2 ax) (fmul s ay);
             r21 = fsub (fmul t2 ay) (fmul s ax);
             r22 = fadd c (fmul t2 az)
         in FMat4
              (fvec4_add (fvec4_add (fvec4_mul m0 r00) (fvec4_mul m1 r01)) (fvec4_mul m2 r02))
              (fvec4_add (fvec4_add (fvec4_mul m0 r10) (fvec4_mul m1 r11)) (fvec4_mul m2 r12))
              (fvec4_add (fvec4_add (fvec4_mul m0 r20) (fvec4_mul m1 r21)) (fvec4_mul m2 r22))
              m3))"

fun glm_scale32 :: "fmat4 \<Rightarrow> fvec3 \<Rightarrow> fmat4" where
  "glm_scale32 (FMat4 m0 m1 m2 m3) (FVec3 v0 v1 v2) =
     FMat4 (fvec4_mul m0 v0) (fvec4_mul m1 v1) (fvec4_mul m2 v2) m3"

text \<open>The factor of radians is the \<^verbatim>\<open>float\<close> nearest to the library's literal.\<close>

definition glm_radians32 :: "f32 \<Rightarrow> f32" where
  "glm_radians32 degrees = fmul degrees (rnd32 0.01745329251994329576923690768489)"

text \<open>
  \<^verbatim>\<open>mat4 * vec4\<close> over \<^verbatim>\<open>float\<close>: the combination of the columns, summed from left to
  right.
\<close>

fun fmat_vec :: "fmat4 \<Rightarrow> fvec4 \<Rightarrow> fvec4" where
  "fmat_vec (FMat4 m0 m1 m2 m3) (FVec4 a b c d) =
     fvec4_add (fvec4_add (fvec4_add (fvec4_mul m0 a) (fvec4_mul m1 b)) (fvec4_mul m2 c))
       (fvec4_mul m3 d)"

subsection \<open>class Sprite over float\<close>

text \<open>
  The class as lines 221 to 286 declare it: the placement members are \<^verbatim>\<open>float\<close>, and the
  setters store whatever \<^verbatim>\<open>float\<close> they are given, NaN and the infinities included.
\<close>

record Sprite32 =
  shaderID32 :: GLuint
  VAO32 :: GLuint
  textureID32 :: GLuint
  position32 :: fvec2
  scale32 :: fvec2
  rotation32 :: f32

definition new_Sprite32 :: "GLuint \<Rightarrow> GLuint \<Rightarrow> GLuint \<Rightarrow> Sprite32" where
  "new_Sprite32 sid quadVAO tid =
     \<lparr>shaderID32 = sid, VAO32 = quadVAO, textureID32 = tid,
      position32 = FVec2 (Finite 0) (Finite 0), scale32 = FVec2 (Finite 100) (Finite 100),
      rotation32 = Finite 0\<rparr>"

definition SetPosition32 :: "Sprite32 \<Rightarrow> f32 \<Rightarrow> f32 \<Rightarrow> Sprite32" where
  "SetPosition32 s x y = s\<lparr>position32 := FVec2 x y\<rparr>"

definition SetScale32 :: "Sprite32 \<Rightarrow> f32 \<Rightarrow> f32 \<Rightarrow> Sprite32" where
  "SetScale32 s widthPx heightPx = s\<lparr>scale32 := FVec2 widthPx heightPx\<rparr>"

definition SetRotation32 :: "Sprite32 \<Rightarrow> f32 \<Rightarrow> Sprite32" where
  "SetRotation32 s angleDegrees = s\<lparr>rotation32 := angleDegrees\<rparr>"

text \<open>Step 1 of \<^verbatim>\<open>Sprite::Draw\<close> (lines 250 to 258) over \<^verbatim>\<open>float\<close>.\<close>

definition Draw_model32 :: "libm \<Rightarrow> Sprite32 \<Rightarrow> fmat4" where
  "Draw_model32 lm s =
     (case position32 s of FVec2 px py \<Rightarrow>
      case scale32 s of FVec2 sx sy \<Rightarrow>
        (let model = fmat4_identity;
             model = glm_translate32 model (FVec3 px py (Finite 0));
             model = glm_translate32 model
                       (FVec3 (fmul (Finite 0.5) sx) (fmul (Finite 0.5) sy) (Finite 0));
             model = glm_rotate32 lm model (glm_radians32 (rotation32 s))
                       (FVec3 (Finite 0) (Finite 0) (Finite 1));
             model = glm_translate32 model
                       (FVec3 (fmul (Finite (- 0.5)) sx) (fmul (Finite (- 0.5)) sy) (Finite 0));
             model = glm_scale32 model (FVec3 sx sy (Finite 1))
         in model))"

text \<open>
  The corners over \<^verbatim>\<open>float\<close>: the model matrix applied to \<^verbatim>\<open>vec4(aPos, 1.0)\<close> for the
  vertices of the quad (whose coordinates, plus and minus 0.5 and 0, are binary32 values).
\<close>

fun fvec4_xy :: "fvec4 \<Rightarrow> fvec2" where
  "fvec4_xy (FVec4 a b c d) = FVec2 a b"

fun fvec4_of :: "vec3 \<Rightarrow> fvec4" where
  "fvec4_of (Vec3 a b c) = FVec4 (Finite a) (Finite b) (Finite c) (Finite 1)"

definition corner32 :: "libm \<Rightarrow> Sprite32 \<Rightarrow> vec3 \<Rightarrow> fvec2" where
  "corner32 lm s v = fvec4_xy (fmat_vec (Draw_model32 lm s) (fvec4_of v))"

definition corners32 :: "libm \<Rightarrow> Sprite32 \<Rightarrow> fvec2 list" where
  "corners32 lm s = map (\<lambda>(aPos, aTexCoord). corner32 lm s aPos) quadVertices"

text \<open>
  A sprite of the exact model as a sprite over \<^verbatim>\<open>float\<close> (its placement is finite), and
  an exact point as a \<^verbatim>\<open>float\<close> point.
\<close>

fun fvec2_of :: "vec2 \<Rightarrow> fvec2" where
  "fvec2_of (Vec2 a b) = FVec2 (Finite a) (Finite b)"

definition to32 :: "Sprite \<Rightarrow> Sprite32" where
  "to32 s =
     \<lparr>shaderID32 = shaderID s, VAO32 = VAO s, textureID32 = textureID s,
      position32 = fvec2_of (position s), scale32 = fvec2_of (scale s),
      rotation32 = Finite (rotation s)\<rparr>"

subsection \<open>Calls on a sprite\<close>

text \<open>
  The states a sprite reaches: construction, then any sequence of calls of the three
  setters, each with its \<^verbatim>\<open>float\<close> arguments.
\<close>

datatype sprite_call =
  CallSetPosition f32 f32
| CallSetScale f32 f32
| CallSetRotation f32

fun apply_call :: "Sprite32 \<Rightarrow> sprite_call \<Rightarrow> Sprite32" where
  "apply_call s (CallSetPosition x y) = SetPosition32 s x y"
| "apply_call s (CallSetScale w h) = SetScale32 s w h"
| "apply_call s (CallSetRotation a) = SetRotation32 s a"

fun apply_calls :: "Sprite32 \<Rightarrow> sprite_call list \<Rightarrow> Sprite32" where
  "apply_calls s [] = s"
| "apply_calls s (c # cs) = apply_calls (apply_call s c) cs"

text \<open>A call other than a SetScale with an argument that is not \<^verbatim>\<open>>= 0\<close>.\<close>

fun nonneg_scale_call :: "sprite_call \<Rightarrow> bool" where
  "nonneg_scale_call (CallSetScale w h) = (f32_ge0 w \<and> f32_ge0 h)"
| "nonneg_scale_call c = True"

text \<open>The invariant \<^verbatim>\<open>scale.x >= 0 && scale.y >= 0\<close>.\<close>

definition scale_nonneg :: "Sprite32 \<Rightarrow> bool" where
  "scale_nonneg s = (case scale32 s of FVec2 w h \<Rightarrow> f32_ge0 w \<and> f32_ge0 h)"

section \<open>Properties\<close>

subsection \<open>Matrix algebra\<close>

lemma vec4_mul_zero_one:
  "vec4_add (vec4_mul u 0) w = w" "vec4_add w (vec4_mul u 0) = w" "vec4_mul w 1 = w"
  by (cases u; cases w; simp)+

lemma glm_translate_mat_mul: "glm_translate m v = mat_mul m (spec_Translate v)"
  by (cases m; cases v) (simp add: vec4_mul_zero_one)

lemma glm_scale_mat_mul: "glm_scale m v = mat_mul m (spec_Scale v)"
  by (cases m; cases v) (simp add: vec4_mul_zero_one)

lemma glm_rotate_z_mat_mul: "glm_rotate m a (Vec3 0 0 1) = mat_mul m (spec_RotateZ a)"
  by (cases m) (simp add: spec_RotateZ_def vec4_mul_zero_one Let_def)

lemma mat_vec_add: "mat_vec m (vec4_add u v) = vec4_add (mat_vec m u) (mat_vec m v)"
proof -
  obtain m0 m1 m2 m3 where m: "m = Mat4 m0 m1 m2 m3" by (cases m)
  show ?thesis
    unfolding m by (cases m0; cases m1; cases m2; cases m3; cases u; cases v) (simp add: algebra_simps)
qed

lemma mat_vec_mul: "mat_vec m (vec4_mul u k) = vec4_mul (mat_vec m u) k"
proof -
  obtain m0 m1 m2 m3 where m: "m = Mat4 m0 m1 m2 m3" by (cases m)
  show ?thesis
    unfolding m by (cases m0; cases m1; cases m2; cases m3; cases u) (simp add: algebra_simps)
qed

text \<open>The product of matrices is the composition of their actions on vectors.\<close>

lemma mat_mul_vec: "mat_vec (mat_mul m n) v = mat_vec m (mat_vec n v)"
  by (cases n; cases v) (simp add: mat_vec_add mat_vec_mul)

text \<open>
  Where Draw's model matrix puts the vertex (cx, cy, cz) of the quad: the scaled vertex,
  moved by minus half the scale, rotated, moved by plus half the scale and by the position.
\<close>

lemma corner_formula:
  "corner s (Vec3 cx cy cz) =
     Vec2 (vx (position s) + 0.5 * vx (scale s)
            + (cos (glm_radians (rotation s)) * (vx (scale s) * cx - 0.5 * vx (scale s))
               - sin (glm_radians (rotation s)) * (vy (scale s) * cy - 0.5 * vy (scale s))))
          (vy (position s) + 0.5 * vy (scale s)
            + (sin (glm_radians (rotation s)) * (vx (scale s) * cx - 0.5 * vx (scale s))
               + cos (glm_radians (rotation s)) * (vy (scale s) * cy - 0.5 * vy (scale s))))"
  by (simp add: corner_def Draw_model_def mat4_identity_def Let_def algebra_simps)

lemma glm_radians_values:
  "glm_radians 0 = 0" "glm_radians 180 = pi" "glm_radians 45 = pi / 4"
  by (simp_all add: glm_radians_def)

lemma setters_simps:
  "position (SetPosition s x y) = Vec2 x y" "scale (SetPosition s x y) = scale s"
  "rotation (SetPosition s x y) = rotation s"
  "position (SetScale s w h) = position s" "scale (SetScale s w h) = Vec2 w h"
  "rotation (SetScale s w h) = rotation s"
  "position (SetRotation s a) = position s" "scale (SetRotation s a) = scale s"
  "rotation (SetRotation s a) = a"
  by (simp_all add: SetPosition_def SetScale_def SetRotation_def)

subsection \<open>The model matrix and the vertex stage\<close>

text \<open>
  C1: for every sprite and every projection matrix, the model matrix Draw computes is the
  product Translate(position) . Translate(+0.5 scale.x, +0.5 scale.y, 0) .
  RotateZ(radians(rotation)) . Translate(-0.5 scale.x, -0.5 scale.y, 0) .
  Scale(scale.x, scale.y, 1), taken from the identity on; the draw call Draw issues
  gives each of the four vertices of the quad the position
  projection . (model . vertex); and the four vertices are the corners (-0.5, 0.5),
  (-0.5, -0.5), (0.5, 0.5), (0.5, -0.5).
\<close>

theorem Draw_model_is_composition:
  "Draw_model s =
     mat_mul (mat_mul (mat_mul (mat_mul (mat_mul mat4_identity
       (spec_Translate (Vec3 (vx (position s)) (vy (position s)) 0)))
       (spec_Translate (Vec3 (0.5 * vx (scale s)) (0.5 * vy (scale s)) 0)))
       (spec_RotateZ (glm_radians (rotation s))))
       (spec_Translate (Vec3 (- 0.5 * vx (scale s)) (- 0.5 * vy (scale s)) 0)))
       (spec_Scale (Vec3 (vx (scale s)) (vy (scale s)) 1))
   \<and> map fst (dc_vertices (last (draw_calls (snd (Draw s projection gl))))) =
       map (\<lambda>(aPos, aTexCoord). mat_vec projection (mat_vec (Draw_model s) (vec4_of aPos 1)))
         quadVertices
   \<and> map fst quadVertices =
       [Vec3 (- 0.5) 0.5 0, Vec3 (- 0.5) (- 0.5) 0, Vec3 0.5 0.5 0, Vec3 0.5 (- 0.5) 0]"
proof -
  have model: "Draw_model s =
     mat_mul (mat_mul (mat_mul (mat_mul (mat_mul mat4_identity
       (spec_Translate (Vec3 (vx (position s)) (vy (position s)) 0)))
       (spec_Translate (Vec3 (0.5 * vx (scale s)) (0.5 * vy (scale s)) 0)))
       (spec_RotateZ (glm_radians (rotation s))))
       (spec_Translate (Vec3 (- 0.5 * vx (scale s)) (- 0.5 * vy (scale s)) 0)))
       (spec_Scale (Vec3 (vx (scale s)) (vy (scale s)) 1))"
    unfolding Draw_model_def Let_def
    by (simp only: glm_translate_mat_mul glm_scale_mat_mul glm_rotate_z_mat_mul)
  have shader: "map fst (dc_vertices (last (draw_calls (snd (Draw s projection gl))))) =
       map (\<lambda>(aPos, aTexCoord). mat_vec projection (mat_vec (Draw_model s) (vec4_of aPos 1)))
         quadVertices"
    by (simp add: Draw_def Let_def glDrawArrays_def glUniform1i_def uniform_mat4_def
        glUniformMatrix4fv_def quadVertices_def mat_mul_vec)
  show ?thesis using model shader by (simp add: quadVertices_def)
qed

subsection \<open>Where the corners land\<close>

text \<open>
  C2 (the code differs): with rotation 0 the four corners are those of the rectangle
  centred at the position, [P.x - S.x/2, P.x + S.x/2] x [P.y - S.y/2, P.y + S.y/2], and
  not of [P.x, P.x + S.x] x [P.y, P.y + S.y]. For the sprite at (50,50) with scale
  (128,128) the top-left corner lands on (-14,114) and the bottom-right on (114,-14), not
  on (50,178) and (178,50).
\<close>

theorem corners_rotation_zero_centred:
  "corners (SetRotation (SetScale (SetPosition s px py) sx sy) 0) =
     [Vec2 (px - sx / 2) (py + sy / 2), Vec2 (px - sx / 2) (py - sy / 2),
      Vec2 (px + sx / 2) (py + sy / 2), Vec2 (px + sx / 2) (py - sy / 2)]
   \<and> corner (SetRotation (SetScale (SetPosition (new_Sprite sid vao tid) 50 50) 128 128) 0)
       (Vec3 (- 0.5) 0.5 0) = Vec2 (- 14) 114
   \<and> corner (SetRotation (SetScale (SetPosition (new_Sprite sid vao tid) 50 50) 128 128) 0)
       (Vec3 0.5 (- 0.5) 0) = Vec2 114 (- 14)
   \<and> corner (SetRotation (SetScale (SetPosition (new_Sprite sid vao tid) 50 50) 128 128) 0)
       (Vec3 (- 0.5) 0.5 0) \<noteq> Vec2 50 178
   \<and> corner (SetRotation (SetScale (SetPosition (new_Sprite sid vao tid) 50 50) 128 128) 0)
       (Vec3 0.5 (- 0.5) 0) \<noteq> Vec2 178 50"
  by (simp add: corners_def quadVertices_def corner_formula setters_simps glm_radians_values)

text \<open>
  C3 (the code differs): the rotation pivots about position + scale/2, which is a corner
  of the quad as Draw places it and not its centre, so the centroid of the four corners
  moves with the angle: it is P + S/2 - R(S/2) for the rotation R. For the sprite at
  (300,200) with scale (200,100) the centroid is (300,200) at rotation 0 and
  (400 - 25 sqrt 2, 250 - 75 sqrt 2) at rotation 45, which is not (400,250).
\<close>

theorem centroid_moves_with_rotation:
  "centroid (corners s) =
     Vec2 (vx (position s) + vx (scale s) / 2
            - (cos (glm_radians (rotation s)) * vx (scale s)
               - sin (glm_radians (rotation s)) * vy (scale s)) / 2)
          (vy (position s) + vy (scale s) / 2
            - (sin (glm_radians (rotation s)) * vx (scale s)
               + cos (glm_radians (rotation s)) * vy (scale s)) / 2)
   \<and> centroid (corners (SetRotation (SetScale (SetPosition (new_Sprite sid vao tid) 300 200) 200 100) 45))
       = Vec2 (400 - 25 * sqrt 2) (250 - 75 * sqrt 2)
   \<and> centroid (corners (SetRotation (SetScale (SetPosition (new_Sprite sid vao tid) 300 200) 200 100) 45))
       \<noteq> Vec2 400 250
   \<and> centroid (corners (SetRotation (SetScale (SetPosition (new_Sprite sid vao tid) 300 200) 200 100) 0))
       = Vec2 300 200"
proof -
  have general: "centroid (corners t) =
     Vec2 (vx (position t) + vx (scale t) / 2
            - (cos (glm_radians (rotation t)) * vx (scale t)
               - sin (glm_radians (rotation t)) * vy (scale t)) / 2)
          (vy (position t) + vy (scale t) / 2
            - (sin (glm_radians (rotation t)) * vx (scale t)
               + cos (glm_radians (rotation t)) * vy (scale t)) / 2)" for t
    by (simp add: centroid_def corners_def quadVertices_def corner_formula field_simps)
  have at45: "centroid (corners (SetRotation (SetScale (SetPosition (new_Sprite sid vao tid) 300 200) 200 100) 45))
       = Vec2 (400 - 25 * sqrt 2) (250 - 75 * sqrt 2)"
    by (simp add: general setters_simps glm_radians_values cos_45 sin_45 field_simps)
  have at0: "centroid (corners (SetRotation (SetScale (SetPosition (new_Sprite sid vao tid) 300 200) 200 100) 0))
       = Vec2 300 200"
    by (simp add: general setters_simps glm_radians_values)
  show ?thesis using general[of s] at0 by (simp add: at45)
qed

text \<open>
  C4 (the code differs): at rotation 180 each corner lands on the place the diagonally
  opposite corner has at rotation 0 moved by the scale (S.x, S.y), not on that place
  itself. For the sprite at (50,50) with scale (128,128) the bottom-left corner lands on
  (242,242), while the top-right corner at rotation 0 is at (114,114).
\<close>

theorem rotation_180_misses_opposite_corner:
  "corners (SetRotation s 180) =
     map (\<lambda>p. vec2_add p (scale s)) (rev (corners (SetRotation s 0)))
   \<and> corner (SetRotation (SetScale (SetPosition (new_Sprite sid vao tid) 50 50) 128 128) 180)
       (Vec3 (- 0.5) (- 0.5) 0) = Vec2 242 242
   \<and> corner (SetRotation (SetScale (SetPosition (new_Sprite sid vao tid) 50 50) 128 128) 0)
       (Vec3 0.5 0.5 0) = Vec2 114 114
   \<and> corners (SetRotation (SetScale (SetPosition (new_Sprite sid vao tid) 50 50) 128 128) 180)
       \<noteq> rev (corners (SetRotation (SetScale (SetPosition (new_Sprite sid vao tid) 50 50) 128 128) 0))"
proof -
  obtain sx sy where S: "scale s = Vec2 sx sy" by (cases "scale s")
  have general: "corners (SetRotation s 180) =
     map (\<lambda>p. vec2_add p (scale s)) (rev (corners (SetRotation s 0)))"
    by (simp add: corners_def quadVertices_def corner_formula setters_simps glm_radians_values S)
  show ?thesis
    using general
    by (simp add: corners_def quadVertices_def corner_formula setters_simps glm_radians_values)
qed

subsection \<open>Rounding to binary32\<close>

lemma floor_log2_eq:
  assumes "0 < a" "2 powi e \<le> a" "a < 2 powi (e + 1)"
  shows "\<lfloor>log 2 a\<rfloor> = e"
proof -
  have 1: "2 powr (real_of_int e) = 2 powi e"
    by (simp add: powr_real_of_int')
  have 2: "2 powr (real_of_int e + 1) = 2 powi (e + 1)"
    using powr_real_of_int'[of 2 "e + 1"] by simp
  show ?thesis
    using assms by (subst floor_log_eq_powr_iff) (simp_all add: 1 2)
qed

lemma round_even_of_int: "round_even (of_int k) = k"
  by (simp add: round_even_def)

text \<open>Rounding a value whose exponent e and rounded mantissa n are known.\<close>

lemma rnd32_eval:
  assumes "x \<noteq> 0" "- 126 \<le> e" "2 powi e \<le> \<bar>x\<bar>" "\<bar>x\<bar> < 2 powi (e + 1)"
    and "round_even (x / 2 powi (e - 23)) = n"
    and "\<bar>of_int n * 2 powi (e - 23)\<bar> < (2::real) ^ 128"
  shows "rnd32 x = Finite (of_int n * 2 powi (e - 23))"
proof -
  have "\<lfloor>log 2 \<bar>x\<bar>\<rfloor> = e"
    using assms by (intro floor_log2_eq) simp_all
  then show ?thesis
    using assms unfolding rnd32_def Let_def by (simp add: max_def)
qed

text \<open>The halves of the integers below 2 to the 24 are binary32 values: rounding keeps them.\<close>

lemma rnd32_half_int:
  assumes "2 * x = of_int k" "\<bar>k\<bar> < 2 ^ 24"
  shows "rnd32 x = Finite x"
proof (cases "x = 0")
  case True
  then show ?thesis by (simp add: rnd32_def)
next
  case False
  define e where "e = \<lfloor>log 2 \<bar>x\<bar>\<rfloor>"
  have x: "x = of_int k / 2" using assms(1) by simp
  have k0: "k \<noteq> 0" using False x by auto
  then have "1 \<le> \<bar>k\<bar>" by simp
  then have "1 \<le> \<bar>real_of_int k\<bar>" by linarith
  then have lo: "1 / 2 \<le> \<bar>x\<bar>" by (simp add: x)
  have "real_of_int \<bar>k\<bar> < real_of_int (2 ^ 24)"
    using assms(2) by (simp only: of_int_less_iff)
  then have "\<bar>real_of_int k\<bar> < 2 ^ 24" by simp
  then have hi: "\<bar>x\<bar> < 2 ^ 23" by (simp add: x)
  have pos: "0 < \<bar>x\<bar>" using False by simp
  have e_lo: "- 1 \<le> e"
    unfolding e_def using lo pos by (simp add: le_floor_iff le_log_iff powr_minus_divide)
  have e_hi: "e \<le> 22"
  proof -
    have "log 2 \<bar>x\<bar> < 23"
      using hi pos by (simp add: log_less_iff powr_realpow[symmetric])
    then have "\<lfloor>log 2 \<bar>x\<bar>\<rfloor> < 23" by (simp add: floor_less_iff)
    then show ?thesis by (simp add: e_def)
  qed
  obtain m where m: "22 - e = int m" using e_hi by (metis diff_ge_0_iff_ge nonneg_int_cases)
  have u: "(2::real) powi (e - 23) = 1 / (2 * 2 ^ m)"
  proof -
    have eq: "e - 23 = - int (Suc m)" using m by simp
    have "(2::real) powi (e - 23) = inverse (2 ^ Suc m)"
      unfolding eq by (simp only: power_int_minus power_int_of_nat)
    then show ?thesis by (simp add: field_simps)
  qed
  have q: "x / 2 powi (e - 23) = of_int (k * 2 ^ m)"
    by (simp add: u x)
  have y: "of_int (round_even (x / 2 powi (e - 23))) * 2 powi (e - 23) = x"
    unfolding q round_even_of_int by (simp add: u x)
  have "\<bar>x\<bar> < 2 ^ 128" using hi by (rule less_trans) simp
  then show ?thesis
    using False e_lo y unfolding rnd32_def Let_def e_def[symmetric] by (simp add: max_def)
qed

lemma rnd32_half:
  assumes "2 * x \<in> \<int>" "\<bar>x\<bar> < 2 ^ 23"
  shows "rnd32 x = Finite x"
proof -
  obtain k where k: "2 * x = of_int k" using assms(1) by (auto elim: Ints_cases)
  have "\<bar>real_of_int k\<bar> < 2 ^ 24" using assms(2) k[symmetric] by simp
  then have "real_of_int \<bar>k\<bar> < real_of_int (2 ^ 24)" by simp
  then have "\<bar>k\<bar> < 2 ^ 24" by (simp only: of_int_less_iff)
  with k show ?thesis by (rule rnd32_half_int)
qed

text \<open>
  At 2 to the 24 the grid has the step 2, just below it the step 1: 16777216.5 and
  16777215.5 both round to 16777216, the second by the tie to the even mantissa.
\<close>

lemma rnd32_at_2_to_24:
  "rnd32 16777216 = Finite 16777216"
  "rnd32 (33554433 / 2) = Finite 16777216"
  "rnd32 (33554431 / 2) = Finite 16777216"
  using rnd32_eval[of 16777216 24 8388608] rnd32_eval[of "33554433 / 2" 24 8388608]
    rnd32_eval[of "33554431 / 2" 23 16777216]
  by (simp_all add: round_even_def)

lemma radians_factor:
  "rnd32 (1745329251994329576923690768489 / 100000000000000000000000000000000) =
     Finite (9370165 / 536870912)"
  using rnd32_eval[of "1745329251994329576923690768489 / 100000000000000000000000000000000"
      "- 6" 9370165]
  by (simp add: round_even_def power_int_minus)

lemma libm_rounded_zero:
  "cosf libm_rounded (Finite 0) = Finite 1" "sinf libm_rounded (Finite 0) = Finite 0"
  by (simp_all add: libm_rounded_def rnd32_half)

lemmas f32_eval = corner32_def Draw_model32_def fmat4_identity_def glm_radians32_def
  radians_factor libm_rounded_zero fsub_def Let_def rnd32_half rnd32_at_2_to_24
  SetPosition32_def SetScale32_def SetRotation32_def new_Sprite32_def

lemma corner_moved:
  "corner (SetPosition s (vx (position s) + dx) (vy (position s) + dy)) w =
       vec2_add (corner s w) (Vec2 dx dy)"
  by (cases w) (simp add: corner_formula setters_simps)

lemma to32_placed:
  "to32 (SetRotation (SetScale (SetPosition (new_Sprite a b c) px py) sx sy) r) =
     SetRotation32 (SetScale32 (SetPosition32 (new_Sprite32 a b c) (Finite px) (Finite py))
       (Finite sx) (Finite sy)) (Finite r)"
  by (simp add: to32_def SetPosition_def SetPosition32_def SetScale_def SetScale32_def
      SetRotation_def SetRotation32_def new_Sprite_def new_Sprite32_def)

text \<open>
  With rotation 0 and whole numbers below 2 to the 20 for position and scale (pixels),
  every intermediate value of Draw is half a whole number below 2 to the 22, so nothing is
  rounded: the \<^verbatim>\<open>float\<close> corners are the exact ones. Every C library returns cos 0 = 1
  and sin 0 = 0.
\<close>

lemma corners32_whole_pixels:
  assumes lm: "cosf lm (Finite 0) = Finite 1" "sinf lm (Finite 0) = Finite 0"
    and "\<bar>a\<bar> < 2 ^ 20" "\<bar>b\<bar> < 2 ^ 20" "\<bar>w\<bar> < 2 ^ 20" "\<bar>h\<bar> < 2 ^ 20"
  shows "corners32 lm
           (SetPosition32
             (SetRotation32 (SetScale32 (SetPosition32 (new_Sprite32 sid vao tid) x0 y0)
                (Finite (of_int w)) (Finite (of_int h))) (Finite 0))
             (Finite (of_int a)) (Finite (of_int b)))
         = map fvec2_of
             (corners (SetRotation (SetScale (SetPosition (new_Sprite sid vao tid)
                (of_int a) (of_int b)) (of_int w) (of_int h)) 0))"
proof -
  have A: "\<bar>real_of_int a\<bar> < 2 ^ 20" "\<bar>real_of_int b\<bar> < 2 ^ 20"
    "\<bar>real_of_int w\<bar> < 2 ^ 20" "\<bar>real_of_int h\<bar> < 2 ^ 20"
    using assms(3-6) by (metis of_int_abs of_int_less_iff of_int_numeral of_int_power)+
  have R: "rnd32 x = Finite x" if "2 * x \<in> \<int>" "\<bar>x\<bar> < 2 ^ 22" for x
    using that by (intro rnd32_half) auto
  show ?thesis
    using A
    by (simp add: corners32_def corners_def quadVertices_def corner_formula setters_simps
        glm_radians_values corner32_def Draw_model32_def fmat4_identity_def glm_radians32_def
        radians_factor lm fsub_def Let_def
        SetPosition32_def SetScale32_def SetRotation32_def new_Sprite32_def R)
qed

subsection \<open>Moving the position\<close>

text \<open>
  C5 (amended): for every scale, rotation and offset (dx, dy), moving the position by
  (dx, dy) moves each of the four corners by exactly (dx, dy) in exact arithmetic. In the
  program's binary32 arithmetic, with any C library, the same holds whenever the corners
  are computed without rounding error before and after the move (their \<^verbatim>\<open>float\<close> values are
  the exact ones); that is so at rotation 0, with a C library that returns cos 0 = 1 and
  sin 0 = 0, when position and scale, before and after the move, are whole numbers of
  magnitude below 2 to the 20. It does not hold in general:
  with scale (1,1) and rotation 0, moving the position from (16777216, 0) by
  (-16777216, 0) takes the x of the top-left corner from 16777216 to -0.5, and not to 0.
\<close>

theorem corners_translate_with_position:
  "corners (SetPosition s (vx (position s) + dx) (vy (position s) + dy)) =
     map (\<lambda>p. vec2_add p (Vec2 dx dy)) (corners s)
   \<and> (corners32 lm (to32 s) = map fvec2_of (corners s)
        \<and> corners32 lm
             (SetPosition32 (to32 s) (Finite (vx (position s) + dx)) (Finite (vy (position s) + dy)))
            = map fvec2_of (corners (SetPosition s (vx (position s) + dx) (vy (position s) + dy)))
      \<longrightarrow> corners32 lm
             (SetPosition32 (to32 s) (Finite (vx (position s) + dx)) (Finite (vy (position s) + dy)))
            = map (\<lambda>p. fvec2_of (vec2_add p (Vec2 dx dy))) (corners s))
   \<and> (cosf lm (Finite 0) = Finite 1 \<and> sinf lm (Finite 0) = Finite 0
        \<and> \<bar>a\<bar> < 2 ^ 20 \<and> \<bar>b\<bar> < 2 ^ 20 \<and> \<bar>w\<bar> < 2 ^ 20 \<and> \<bar>h\<bar> < 2 ^ 20
        \<and> \<bar>a + da\<bar> < 2 ^ 20 \<and> \<bar>b + db\<bar> < 2 ^ 20
      \<longrightarrow> corners32 lm
             (SetRotation32 (SetScale32 (SetPosition32 (new_Sprite32 sid vao tid)
                (Finite (of_int a)) (Finite (of_int b))) (Finite (of_int w)) (Finite (of_int h)))
                (Finite 0))
            = map fvec2_of
                (corners (SetRotation (SetScale (SetPosition (new_Sprite sid vao tid)
                   (of_int a) (of_int b)) (of_int w) (of_int h)) 0))
          \<and> corners32 lm
             (SetPosition32
               (SetRotation32 (SetScale32 (SetPosition32 (new_Sprite32 sid vao tid)
                  (Finite (of_int a)) (Finite (of_int b))) (Finite (of_int w)) (Finite (of_int h)))
                  (Finite 0))
               (Finite (of_int (a + da))) (Finite (of_int (b + db))))
            = map (\<lambda>p. fvec2_of (vec2_add p (Vec2 (of_int da) (of_int db))))
                (corners (SetRotation (SetScale (SetPosition (new_Sprite sid vao tid)
                   (of_int a) (of_int b)) (of_int w) (of_int h)) 0)))"
proof -
  let ?s0 = "SetRotation (SetScale (SetPosition (new_Sprite sid vao tid)
                   (of_int a) (of_int b)) (of_int w) (of_int h)) 0"
  let ?f = "\<lambda>x y. SetRotation32 (SetScale32 (SetPosition32 (new_Sprite32 sid vao tid)
                x y) (Finite (of_int w)) (Finite (of_int h))) (Finite 0)"
  have same: "?f (Finite (of_int a)) (Finite (of_int b)) =
      SetPosition32 (?f (Finite (of_int a)) (Finite (of_int b)))
        (Finite (of_int a)) (Finite (of_int b))"
    by (simp add: SetPosition32_def SetScale32_def SetRotation32_def)
  have moved: "corners (SetRotation (SetScale (SetPosition (new_Sprite sid vao tid)
                (of_int (a + da)) (of_int (b + db))) (of_int w) (of_int h)) 0)
       = map (\<lambda>p. vec2_add p (Vec2 (of_int da) (of_int db))) (corners ?s0)"
    by (simp add: corners_def quadVertices_def corner_formula setters_simps glm_radians_values)
  have px: "corners32 lm (?f (Finite (of_int a)) (Finite (of_int b))) = map fvec2_of (corners ?s0)
          \<and> corners32 lm (SetPosition32 (?f (Finite (of_int a)) (Finite (of_int b)))
                (Finite (of_int (a + da))) (Finite (of_int (b + db))))
            = map (\<lambda>p. fvec2_of (vec2_add p (Vec2 (of_int da) (of_int db)))) (corners ?s0)"
    if "cosf lm (Finite 0) = Finite 1" "sinf lm (Finite 0) = Finite 0"
      "\<bar>a\<bar> < 2 ^ 20" "\<bar>b\<bar> < 2 ^ 20" "\<bar>w\<bar> < 2 ^ 20" "\<bar>h\<bar> < 2 ^ 20"
      "\<bar>a + da\<bar> < 2 ^ 20" "\<bar>b + db\<bar> < 2 ^ 20"
  proof
    show "corners32 lm (?f (Finite (of_int a)) (Finite (of_int b))) = map fvec2_of (corners ?s0)"
      by (subst same) (rule corners32_whole_pixels[OF that(1-6)])
    show "corners32 lm (SetPosition32 (?f (Finite (of_int a)) (Finite (of_int b)))
                (Finite (of_int (a + da))) (Finite (of_int (b + db))))
            = map (\<lambda>p. fvec2_of (vec2_add p (Vec2 (of_int da) (of_int db)))) (corners ?s0)"
      using corners32_whole_pixels[OF that(1,2,7,8,5,6), of sid vao tid
          "Finite (of_int a)" "Finite (of_int b)"]
        moved
      by (simp add: comp_def)
  qed
  show ?thesis
    using px by (simp add: corners_def quadVertices_def corner_moved)
qed

theorem corners_translate_with_position_witness:
  "corners32 libm_rounded
     (to32 (SetRotation (SetScale (SetPosition (new_Sprite 1 2 3) 50 50) 128 128) 0)) =
     [FVec2 (Finite (- 14)) (Finite 114), FVec2 (Finite (- 14)) (Finite (- 14)),
      FVec2 (Finite 114) (Finite 114), FVec2 (Finite 114) (Finite (- 14))]
   \<and> corners32 libm_rounded
     (SetPosition32 (to32 (SetRotation (SetScale (SetPosition (new_Sprite 1 2 3) 50 50) 128 128) 0))
        (Finite (50 + 10)) (Finite (50 + 20))) =
     [FVec2 (Finite (- 4)) (Finite 134), FVec2 (Finite (- 4)) (Finite 6),
      FVec2 (Finite 124) (Finite 134), FVec2 (Finite 124) (Finite 6)]
   \<and> map fvec2_of
       (corners (SetRotation (SetScale (SetPosition (new_Sprite 1 2 3) 50 50) 128 128) 0)) =
     [FVec2 (Finite (- 14)) (Finite 114), FVec2 (Finite (- 14)) (Finite (- 14)),
      FVec2 (Finite 114) (Finite 114), FVec2 (Finite 114) (Finite (- 14))]
   \<and> map fvec2_of
       (corners (SetPosition (SetRotation (SetScale (SetPosition (new_Sprite 1 2 3) 50 50) 128 128) 0)
          (50 + 10) (50 + 20))) =
     [FVec2 (Finite (- 4)) (Finite 134), FVec2 (Finite (- 4)) (Finite 6),
      FVec2 (Finite 124) (Finite 134), FVec2 (Finite 124) (Finite 6)]"
proof -
  let ?s = "SetRotation (SetScale (SetPosition (new_Sprite 1 2 3) 50 50) 128 128) 0"
  have e0: "corners ?s = [Vec2 (- 14) 114, Vec2 (- 14) (- 14), Vec2 114 114, Vec2 114 (- 14)]"
    by (simp add: corners_def quadVertices_def corner_formula setters_simps glm_radians_values)
  have e1: "corners (SetPosition ?s (50 + 10) (50 + 20)) =
      [Vec2 (- 4) 134, Vec2 (- 4) 6, Vec2 124 134, Vec2 124 6]"
    by (simp add: corners_def quadVertices_def corner_formula setters_simps glm_radians_values)
  show ?thesis
    using corners_translate_with_position
      [where lm = libm_rounded and a = 50 and b = 50 and w = 128 and h = 128
         and da = 10 and db = 20 and sid = 1 and vao = 2 and tid = 3]
      e0 e1 libm_rounded_zero
    by (simp add: to32_placed)
qed

theorem corners_translate_counterexample:
  "corner32 libm_rounded
       (SetRotation32 (SetScale32 (SetPosition32 (new_Sprite32 1 2 3)
          (Finite 16777216) (Finite 0)) (Finite 1) (Finite 1)) (Finite 0))
       (Vec3 (- 0.5) 0.5 0) = FVec2 (Finite 16777216) (Finite 0.5)
   \<and> corner32 libm_rounded
       (SetRotation32 (SetScale32 (SetPosition32 (new_Sprite32 1 2 3)
          (Finite (16777216 + (- 16777216))) (Finite (0 + 0))) (Finite 1) (Finite 1)) (Finite 0))
       (Vec3 (- 0.5) 0.5 0) = FVec2 (Finite (- 0.5)) (Finite 0.5)
   \<and> (16777216::real) + (- 16777216) \<noteq> - 0.5
   \<and> fadd (Finite 16777216) (Finite (- 16777216)) \<noteq> Finite (- 0.5)"
  by (simp add: f32_eval)

text \<open>
  A second run, with a scale off the whole numbers: scale (0.3f, 0.3f), where 0.3f is
  5033165 / 16777216, and rotation 0. At position (1024, 1024) the top-left corner is
  (1023.8499755859375, 1024.1500244140625), at position (0, 0) it is
  (-0.15000000596..., 0.15000000596...): the move by (-1024, -1024) does not take the one
  to the other.
\<close>

lemma rnd32_second_run:
  "rnd32 (5033165 / 33554432) = Finite (5033165 / 33554432)"
  "rnd32 (- (5033165 / 33554432)) = Finite (- (5033165 / 33554432))"
  "rnd32 (5033165 / 16777216) = Finite (5033165 / 16777216)"
  "rnd32 (34364771533 / 33554432) = Finite (8389837 / 8192)"
  "rnd32 (34359739187 / 33554432) = Finite 1024"
  "rnd32 (34354705203 / 33554432) = Finite (8387379 / 8192)"
  using rnd32_eval[of "5033165 / 33554432" "- 3" 10066330]
    rnd32_eval[of "- (5033165 / 33554432)" "- 3" "- 10066330"]
    rnd32_eval[of "5033165 / 16777216" "- 2" 10066330]
    rnd32_eval[of "34364771533 / 33554432" 10 8389837]
    rnd32_eval[of "34359739187 / 33554432" 10 8388608]
    rnd32_eval[of "34354705203 / 33554432" 9 16774758]
  by (simp_all add: round_even_def power_int_minus)

lemma corners_translate_second_run:
  "corner32 libm_rounded
       (SetRotation32 (SetScale32 (SetPosition32 (new_Sprite32 1 2 3)
          (Finite 1024) (Finite 1024))
          (Finite (5033165 / 16777216)) (Finite (5033165 / 16777216))) (Finite 0))
       (Vec3 (- 0.5) 0.5 0) = FVec2 (Finite (8387379 / 8192)) (Finite (8389837 / 8192))
   \<and> corner32 libm_rounded
       (SetRotation32 (SetScale32 (SetPosition32 (new_Sprite32 1 2 3)
          (Finite 0) (Finite 0))
          (Finite (5033165 / 16777216)) (Finite (5033165 / 16777216))) (Finite 0))
       (Vec3 (- 0.5) 0.5 0) =
         FVec2 (Finite (- (5033165 / 33554432))) (Finite (5033165 / 33554432))
   \<and> (8387379 / 8192 :: real) + (- 1024) \<noteq> - (5033165 / 33554432)"
  by (simp add: f32_eval rnd32_second_run)

subsection \<open>The sprite's state\<close>

lemma apply_call_scale_nonneg:
  "nonneg_scale_call c \<Longrightarrow> scale_nonneg s \<Longrightarrow> scale_nonneg (apply_call s c)"
  by (cases c) (simp_all add: scale_nonneg_def SetPosition32_def SetScale32_def SetRotation32_def)

lemma apply_calls_scale_nonneg:
  "list_all nonneg_scale_call cs \<Longrightarrow> scale_nonneg s \<Longrightarrow> scale_nonneg (apply_calls s cs)"
  by (induction cs arbitrary: s) (simp_all add: apply_call_scale_nonneg)

text \<open>
  C6 (amended): in every sprite state reached from construction by a sequence of
  SetPosition, SetScale and SetRotation calls in which every SetScale call passes a width
  and a height that are \<^verbatim>\<open>>= 0\<close> (so neither negative nor NaN), both scale components are
  \<^verbatim>\<open>>= 0\<close>. SetScale validates nothing, so a call with other arguments stores them: after
  SetScale(-1, -1) on a new sprite the scale is negative.
\<close>

theorem scale_nonneg_reachable:
  "list_all nonneg_scale_call cs \<Longrightarrow>
     scale_nonneg (apply_calls (new_Sprite32 sid vao tid) cs)"
  by (rule apply_calls_scale_nonneg) (simp_all add: scale_nonneg_def new_Sprite32_def)

theorem scale_nonneg_reachable_witness:
  "list_all nonneg_scale_call
     [CallSetPosition NaN (Finite 7), CallSetScale (Finite 0) PInf, CallSetRotation (Finite (- 90))]
   \<and> scale32 (apply_calls (new_Sprite32 1 2 3)
       [CallSetPosition NaN (Finite 7), CallSetScale (Finite 0) PInf,
        CallSetRotation (Finite (- 90))])
       = FVec2 (Finite 0) PInf
   \<and> scale_nonneg (apply_calls (new_Sprite32 1 2 3)
       [CallSetPosition NaN (Finite 7), CallSetScale (Finite 0) PInf,
        CallSetRotation (Finite (- 90))])"
  using scale_nonneg_reachable
    [of "[CallSetPosition NaN (Finite 7), CallSetScale (Finite 0) PInf,
          CallSetRotation (Finite (- 90))]" 1 2 3]
  by (simp add: SetPosition32_def SetScale32_def SetRotation32_def new_Sprite32_def)

theorem scale_negative_counterexample:
  "\<not> scale_nonneg
       (apply_calls (new_Sprite32 1 2 3) [CallSetScale (Finite (- 1)) (Finite (- 1))])"
  by (simp add: scale_nonneg_def SetScale32_def new_Sprite32_def)

text \<open>
  A NaN argument is not negative and not \<^verbatim>\<open>>= 0\<close> either, and SetScale stores it: the
  condition on the calls has to be \<^verbatim>\<open>>= 0\<close>.
\<close>

lemma scale_nan_breaks_invariant:
  "\<not> f32_lt0 NaN \<and> \<not> f32_ge0 NaN
   \<and> \<not> scale_nonneg (apply_calls (new_Sprite32 1 2 3) [CallSetScale NaN (Finite 1)])"
  by (simp add: scale_nonneg_def SetScale32_def new_Sprite32_def)

text \<open>
  C7: a newly constructed Sprite has position (0,0), scale (100,100) and rotation 0; each
  setter overwrites its field with exactly the given arguments, for every input (the
  setters are total and validate nothing); the rotation is stored verbatim in degrees,
  and only Draw converts it to radians, when it builds the model matrix.
\<close>

theorem sprite_defaults_and_setters:
  "position (new_Sprite sid vao tid) = Vec2 0 0
   \<and> scale (new_Sprite sid vao tid) = Vec2 100 100
   \<and> rotation (new_Sprite sid vao tid) = 0
   \<and> position (SetPosition s x y) = Vec2 x y
   \<and> scale (SetScale s w h) = Vec2 w h
   \<and> rotation (SetRotation s a) = a
   \<and> Draw_model (SetRotation s a) =
       glm_scale
         (glm_translate
           (glm_rotate
             (glm_translate
               (glm_translate mat4_identity (Vec3 (vx (position s)) (vy (position s)) 0))
               (Vec3 (0.5 * vx (scale s)) (0.5 * vy (scale s)) 0))
             (a * (pi / 180)) (Vec3 0 0 1))
           (Vec3 (- 0.5 * vx (scale s)) (- 0.5 * vy (scale s)) 0))
         (Vec3 (vx (scale s)) (vy (scale s)) 1)"
  by (simp add: new_Sprite_def SetPosition_def SetScale_def SetRotation_def
      Draw_model_def glm_radians_def Let_def)

text \<open>
  C10: Draw returns the sprite as it received it: position, scale, rotation and the three
  handles are unchanged. Each setter is the update of its own field alone, so the other
  two placement fields and the three handles keep their values.
\<close>

theorem Draw_and_setters_frame:
  "fst (Draw s projection gl) = s
   \<and> SetPosition s x y = s\<lparr>position := Vec2 x y\<rparr>
   \<and> SetScale s w h = s\<lparr>scale := Vec2 w h\<rparr>
   \<and> SetRotation s a = s\<lparr>rotation := a\<rparr>
   \<and> shaderID (SetPosition s x y) = shaderID s \<and> VAO (SetPosition s x y) = VAO s
   \<and> textureID (SetPosition s x y) = textureID s
   \<and> scale (SetPosition s x y) = scale s \<and> rotation (SetPosition s x y) = rotation s
   \<and> shaderID (SetScale s w h) = shaderID s \<and> VAO (SetScale s w h) = VAO s
   \<and> textureID (SetScale s w h) = textureID s
   \<and> position (SetScale s w h) = position s \<and> rotation (SetScale s w h) = rotation s
   \<and> shaderID (SetRotation s a) = shaderID s \<and> VAO (SetRotation s a) = VAO s
   \<and> textureID (SetRotation s a) = textureID s
   \<and> position (SetRotation s a) = position s \<and> scale (SetRotation s a) = scale s"
  by (simp add: Draw_def Let_def SetPosition_def SetScale_def SetRotation_def)

subsection \<open>Shaders, textures and the exit code\<close>

text \<open>
  C9: CreateShaderProgram returns the program's name whatever the compile and link
  statuses are, and writes to standard error exactly one message per failed status;
  loadTexture returns the generated texture name whatever the decoder answers, and when
  the decoder fails it writes its message and leaves every texture image as it was (no
  image is put in place of the missing one). Both are total: nothing is thrown and
  nothing is tried again.
\<close>

theorem resource_failures_nonfatal:
  "fst (CreateShaderProgram drv) = program_name drv
   \<and> snd (CreateShaderProgram drv) =
       (if vertex_compile_status drv = 0
        then ''[ERRO] Vertex Shader compilation failed:'' @ endl
             @ infoLog (vertex_info_log drv) @ endl
        else [])
       @ (if fragment_compile_status drv = 0
        then ''[ERRO] Fragment Shader compilation failed:'' @ endl
             @ infoLog (fragment_info_log drv) @ endl
        else [])
       @ (if link_status drv = 0
        then ''[ERRO] Shader Program link failed:'' @ endl
             @ infoLog (program_info_log drv) @ endl
        else [])
   \<and> fst (loadTexture texID decoder filePath textures) = texID
   \<and> loadTexture texID (decoder(filePath := None)) filePath textures =
       (texID, ''[ERRO] Falha ao carregar textura em: '' @ filePath @ endl, textures)"
  by (simp add: CreateShaderProgram_def loadTexture_def Let_def split: option.splits)

text \<open>The loop returns as soon as some test of the close flag finds it set.\<close>

lemma game_loop_returns:
  "shouldClose_at env (n + k) \<Longrightarrow> c = shouldClose_at env n \<Longrightarrow>
     \<exists>r. game_loop env projection c n sprites gl = Some r"
proof (induction k arbitrary: n c sprites gl)
  case 0
  then show ?case by (simp add: game_loop.simps)
next
  case (Suc k)
  show ?case
  proof (cases c)
    case True
    then show ?thesis by (simp add: game_loop.simps)
  next
    case False
    have "\<exists>r. game_loop env projection (glfwPollEvents (events env n) c) (Suc n)
             (fst (draw_all sprites projection gl)) (snd (draw_all sprites projection gl)) = Some r"
      using Suc.prems by (intro Suc.IH) simp_all
    then show ?thesis using False by (subst game_loop.simps) simp
  qed
qed

text \<open>Conversely, a loop that returns has found the flag set.\<close>

lemma game_loop_returns_only_closed:
  assumes "game_loop env projection c n sprites gl = Some r"
  shows "c = shouldClose_at env n \<longrightarrow> (\<exists>k. shouldClose_at env (n + k))"
proof (rule game_loop.raw_induct
    [where P = "\<lambda>env projection c n sprites gl r.
                  c = shouldClose_at env n \<longrightarrow> (\<exists>k. shouldClose_at env (n + k))",
     OF _ assms], goal_cases)
  case (1 loop env projection c n sprites gl r)
  show ?case
  proof (cases c)
    case True
    have "shouldClose_at env (n + 0)" if "c = shouldClose_at env n"
      using that True by simp
    then show ?thesis by blast
  next
    case False
    show ?thesis
    proof
      assume c: "c = shouldClose_at env n"
      from False 1(2) have "loop env projection (glfwPollEvents (events env n) c) (Suc n)
             (fst (draw_all sprites projection gl)) (snd (draw_all sprites projection gl)) = Some r"
        by simp
      from 1(1)[OF this] c obtain k where "shouldClose_at env (Suc n + k)" by auto
      then show "\<exists>k. shouldClose_at env (n + k)" by (intro exI[of _ "Suc k"]) simp
    qed
  qed
qed

lemma game_loop_diverges:
  "\<forall>n. \<not> shouldClose_at env n \<Longrightarrow> game_loop env projection False 0 sprites gl = None"
  using game_loop_returns_only_closed[of env projection False 0 sprites gl]
  by (cases "game_loop env projection False 0 sprites gl") auto

lemma never_closes_without_events:
  "\<not> shouldClose_at (env\<lparr>events := \<lambda>n. []\<rparr>) n"
  by (induction n) simp_all

text \<open>
  C8: main returns -1, after writing its diagnostic to standard error, when glfwInit
  fails, when the window cannot be created and when the GL loader fails; once the three
  succeed it returns 0 as soon as the window's close flag is set (and does not return
  while it never is); and 0 and -1 are the only exit codes.
\<close>

theorem main_exit_code:
  "(\<not> glfwInit_ok env \<longrightarrow> main env = Some (- 1, ''[ERRO] Falha ao inicializar GLFW'' @ endl))
   \<and> (glfwInit_ok env \<and> \<not> glfwCreateWindow_ok env \<longrightarrow>
        main env = Some (- 1, ''[ERRO] Falha ao criar janela GLFW'' @ endl))
   \<and> (glfwInit_ok env \<and> glfwCreateWindow_ok env \<and> \<not> gladLoadGLLoader_ok env \<longrightarrow>
        main env = Some (- 1, ''[ERRO] Falha ao inicializar GLAD'' @ endl))
   \<and> (glfwInit_ok env \<and> glfwCreateWindow_ok env \<and> gladLoadGLLoader_ok env
        \<and> (\<exists>n. shouldClose_at env n) \<longrightarrow> (\<exists>err. main env = Some (0, err)))
   \<and> (glfwInit_ok env \<and> glfwCreateWindow_ok env \<and> gladLoadGLLoader_ok env
        \<and> (\<forall>n. \<not> shouldClose_at env n) \<longrightarrow> main env = None)
   \<and> (main env = Some (code, err) \<longrightarrow> code = 0 \<or> code = - 1)"
proof -
  have loop: "\<exists>r. game_loop env projection False 0 sprites gl = Some r"
    if "\<exists>n. shouldClose_at env n" for projection sprites gl
    using that game_loop_returns[of env 0 _ False] by auto
  have d: "\<exists>err. main env = Some (0, err)"
    if "glfwInit_ok env" "glfwCreateWindow_ok env" "gladLoadGLLoader_ok env"
      "\<exists>n. shouldClose_at env n"
    using that loop[OF that(4)]
    apply (simp add: main_def Let_def split: prod.splits option.splits)
    by (metis option.distinct(1))
  have f: "main env = None"
    if "glfwInit_ok env" "glfwCreateWindow_ok env" "gladLoadGLLoader_ok env"
      "\<forall>n. \<not> shouldClose_at env n"
    using that by (simp add: main_def Let_def game_loop_diverges split: prod.splits)
  have e: "code = 0 \<or> code = - 1" if "main env = Some (code, err)"
    using that by (auto simp: main_def Let_def split: if_splits prod.splits option.splits)
  show ?thesis using d e f by (simp add: main_def)
qed

theorem main_exit_code_witness:
  "main (env_escape\<lparr>glfwInit_ok := False\<rparr>) =
     Some (- 1, ''[ERRO] Falha ao inicializar GLFW'' @ endl)
   \<and> main (env_escape\<lparr>glfwCreateWindow_ok := False\<rparr>) =
       Some (- 1, ''[ERRO] Falha ao criar janela GLFW'' @ endl)
   \<and> main (env_escape\<lparr>gladLoadGLLoader_ok := False\<rparr>) =
       Some (- 1, ''[ERRO] Falha ao inicializar GLAD'' @ endl)
   \<and> shouldClose_at env_escape 2
   \<and> main env_escape = Some (0, [])
   \<and> main (env_escape\<lparr>events := \<lambda>n. []\<rparr>) = None"
proof -
  have c: "shouldClose_at env_escape 2"
    by (simp add: numeral_2_eq_2 env_escape_def key_callback_def GLFW_KEY_ESCAPE_def
        GLFW_PRESS_def)
  have ok: "glfwInit_ok env_escape" "glfwCreateWindow_ok env_escape"
    "gladLoadGLLoader_ok env_escape"
    by (simp_all add: env_escape_def)
  have ex: "\<exists>err. main env_escape = Some (0, err)"
    using main_exit_code[of env_escape] ok c by blast
  have cs: "CreateShaderProgram (driver env_escape) = (3, [])"
    by (simp add: CreateShaderProgram_def env_escape_def driver_ok_def)
  have lt: "loadTexture t (image_decoder env_escape) p m =
      (t, [], m(t \<mapsto> \<lparr>tex_format = GL_RGBA, tex_width = 1, tex_height = 1,
                        tex_data = [0, 0, 0, 255]\<rparr>))" for t p m
    by (simp add: loadTexture_def env_escape_def Let_def)
  have d: "main env_escape = Some (0, [])"
    using ex ok by (auto simp: main_def cs lt Let_def split: option.splits)
  have n: "main (env_escape\<lparr>events := \<lambda>n. []\<rparr>) = None"
    using main_exit_code[of "env_escape\<lparr>events := \<lambda>n. []\<rparr>"] ok
      never_closes_without_events[of env_escape]
    by simp
  show ?thesis
    using main_exit_code[of "env_escape\<lparr>glfwInit_ok := False\<rparr>"]
      main_exit_code[of "env_escape\<lparr>glfwCreateWindow_ok := False\<rparr>"]
      main_exit_code[of "env_escape\<lparr>gladLoadGLLoader_ok := False\<rparr>"] c d n
    by (simp add: env_escape_def)
qed

end
